theory Spec2Isabelle
  imports Main "HOL-Library.Word"
begin

section \<open>Data model of the chain engine\<close>

text \<open>
  The TypeScript module \<^verbatim>\<open>types.ts\<close> is imported by the chain engine; the records below carry
  the fields the engine reads. A \<^verbatim>\<open>Buffer\<close> is a list of bytes, a JavaScript
  \<^verbatim>\<open>number\<close> holding a height, a count or a timestamp is an \<^typ>\<open>int\<close>, a
  \<^verbatim>\<open>bigint\<close> amount is an \<^typ>\<open>int\<close>.
\<close>

type_synonym bytes = "8 word list"

type_synonym Transaction = bytes

record Addressed =
  address :: bytes

text \<open>
  An account: its address and the delegate bookkeeping of the DPoS module
  (\<^verbatim>\<open>dpos.delegate.username\<close>, \<^verbatim>\<open>pomHeights\<close>, \<^verbatim>\<open>isBanned\<close>). Balances belong to the token
  module and are reached through its reducers.
\<close>

record Account = Addressed +
  username :: string
  pomHeights :: "int list"
  isBanned :: bool

text \<open>
  A candidate handed to \<^verbatim>\<open>setValidators\<close> is \<^verbatim>\<open>{address, isConsensusParticipant}\<close>; a
  \<^verbatim>\<open>Validator\<close> is a candidate extended by \<^verbatim>\<open>minActiveHeight\<close>.
\<close>

record Candidate = Addressed +
  isConsensusParticipant :: bool

record Validator = Candidate +
  minActiveHeight :: int

record BlockHeader =
  id' :: bytes
  version :: int
  timestamp :: int
  height :: int
  previousBlockID :: bytes
  generatorPublicKey :: bytes
  reward :: int
  signature :: bytes

record GenesisAsset =
  accounts :: "Account list"
  initDelegates :: "bytes list"
  initRounds :: int

record GenesisBlockHeader = BlockHeader +
  asset :: GenesisAsset

record 'h Block =
  header :: 'h
  payload :: "Transaction list"

record BlockRewardOptions =
  distance :: int
  rewardOffset :: int
  milestones :: "int list"

section \<open>Reward schedule\<close>

text \<open>
  Modelled from the spec: \<^verbatim>\<open>calculateDefaultReward(height, blockRewardArgs)\<close> of
  \<^verbatim>\<open>block_reward.ts\<close>, which the chain engine imports and which is not among the sources.
  The spec: before \<^verbatim>\<open>rewardOffset\<close> the reward is 0; each \<^verbatim>\<open>rewardDistance\<close> blocks after the
  offset the reward steps to the next milestone of the list; after the list is exhausted
  the reward holds at the last milestone. The configuration schema requires
  \<^verbatim>\<open>distance \<ge> 1\<close>; the spec gives no value for an empty milestone list.
\<close>

definition block_reward_calculateDefaultReward :: "int \<Rightarrow> BlockRewardOptions \<Rightarrow> int" where
  "block_reward_calculateDefaultReward h args =
     (if h < rewardOffset args then 0
      else let location = (h - rewardOffset args) div distance args in
        if int (length (milestones args)) \<le> location then last (milestones args)
        else milestones args ! nat location)"

section \<open>State store\<close>

text \<open>
  Modelled from the spec: the \<^verbatim>\<open>StateStore\<close> class (\<^verbatim>\<open>state_store.ts\<close>, not among the
  sources). The spec: a transient overlay holding an account sub-store (address to
  account, tracking which addresses were updated), a consensus sub-store (key to bytes)
  and the window of recent block headers with the last block's reward; it collects a diff
  for later commit or revert, a diff entry being recorded per mutation. Each sub-store
  therefore holds the overlay, the dirty keys in the order they were marked, and the diff:
  for every key it has mutated, the value it held for the key before the first mutation
  (\<open>None\<close>: it held none). The fields
  \<^verbatim>\<open>chain_networkIdentifier\<close>, \<^verbatim>\<open>chain_lastBlockHeaders\<close>, \<^verbatim>\<open>chain_lastBlockReward\<close> and
  \<^verbatim>\<open>store_defaultAccount\<close> are the four values the chain engine passes to the constructor.
\<close>

record StateStore =
  account_data :: "bytes \<rightharpoonup> Account"
  account_updatedKeys :: "bytes list"
  account_diff :: "(bytes \<times> Account option) list"
  consensus_data :: "string \<rightharpoonup> bytes"
  consensus_updatedKeys :: "string list"
  consensus_diff :: "(string \<times> bytes option) list"
  chain_networkIdentifier :: bytes
  chain_lastBlockHeaders :: "BlockHeader list"
  chain_lastBlockReward :: int
  store_defaultAccount :: Account

text \<open>
  The diff persisted with a block: the diffs of the two sub-stores of the state store the
  block was committed with.
\<close>

record StateDiff =
  accountDiff :: "(bytes \<times> Account option) list"
  consensusDiff :: "(string \<times> bytes option) list"

section \<open>Data access layer\<close>

text \<open>
  Modelled from the spec: the \<^verbatim>\<open>DataAccess\<close> class (\<^verbatim>\<open>data_access\<close>, not among the sources).
  The spec: durable storage for blocks, accounts and consensus key/value pairs with atomic
  multi-key writes, plus a bounded in-memory cache of the most recent block headers; a
  read of an absent id fails with a not-found kind, here \<open>None\<close>. The persisted blocks
  are kept newest first.
\<close>

record DataAccess =
  db_blocks :: "BlockHeader Block list"
  db_accounts :: "bytes \<rightharpoonup> Account"
  db_consensusState :: "string \<rightharpoonup> bytes"
  db_diffs :: "int \<rightharpoonup> StateDiff"
  blocksCache :: "BlockHeader list"
  maxBlockHeaderCache :: nat

definition getBlockByID :: "DataAccess \<Rightarrow> bytes \<Rightarrow> BlockHeader Block option" where
  "getBlockByID da i = find (\<lambda>b. id' (header b) = i) (db_blocks da)"

definition getBlockHeadersByHeightBetween :: "DataAccess \<Rightarrow> int \<Rightarrow> int \<Rightarrow> BlockHeader list" where
  "getBlockHeadersByHeightBetween da fromHeight toHeight =
     map header (filter (\<lambda>b. fromHeight \<le> height (header b) \<and> height (header b) \<le> toHeight)
       (db_blocks da))"

definition getConsensusState :: "DataAccess \<Rightarrow> string \<Rightarrow> bytes option" where
  "getConsensusState da k = db_consensusState da k"

text \<open>
  Modelled from the spec: the header cache of the data access layer
  (\<^verbatim>\<open>addBlockHeader\<close>, \<^verbatim>\<open>removeBlockHeader\<close>). A new header is appended and the oldest
  evicted beyond the maximum; a removed header leaves the cache.
\<close>

definition addBlockHeader :: "BlockHeader \<Rightarrow> DataAccess \<Rightarrow> DataAccess" where
  "addBlockHeader h da =
     (let cache = blocksCache da @ [h]
      in da\<lparr>blocksCache := drop (length cache - maxBlockHeaderCache da) cache\<rparr>)"

definition removeBlockHeader :: "bytes \<Rightarrow> DataAccess \<Rightarrow> DataAccess" where
  "removeBlockHeader i da = da\<lparr>blocksCache := filter (\<lambda>h. id' h \<noteq> i) (blocksCache da)\<rparr>"

text \<open>
  Modelled from the spec: the key under which the finalized height is persisted. The
  sources declare \<^verbatim>\<open>BFTPersistedValues { finalizedHeight }\<close>; the persistent store keeps
  it among the consensus key/value pairs.
\<close>

definition CONSENSUS_STATE_FINALIZED_HEIGHT_KEY :: string where
  "CONSENSUS_STATE_FINALIZED_HEIGHT_KEY = ''finalizedHeight''"

text \<open>
  Modelled from the spec: \<^verbatim>\<open>DataAccess.saveBlock\<close>, which atomically persists the block
  and commits the diff of the state store. Only the dirty entries of the overlay are
  written; the diff the state store has collected is persisted with the block, and the
  finalized height handed in is persisted under its key (its encoding belongs to the
  serialization service and is the parameter \<open>encodeHeight\<close>). The spec gives
  \<^verbatim>\<open>removeFromTempTable\<close> no effect on the blocks, the accounts or the consensus state.
\<close>

definition writeUpdated :: "('k \<rightharpoonup> 'v) \<Rightarrow> ('k \<rightharpoonup> 'v) \<Rightarrow> 'k list \<Rightarrow> ('k \<rightharpoonup> 'v)" where
  "writeUpdated db overlay keys = fold (\<lambda>k m. m(k := overlay k)) keys db"

definition dataAccess_saveBlock ::
  "(int \<Rightarrow> bytes) \<Rightarrow> BlockHeader Block \<Rightarrow> StateStore \<Rightarrow> int \<Rightarrow> bool \<Rightarrow> DataAccess
     \<Rightarrow> DataAccess" where
  "dataAccess_saveBlock encodeHeight block stateStore finalizedHeight removeFromTempTable da =
     da\<lparr>db_blocks := block # db_blocks da,
        db_accounts := writeUpdated (db_accounts da) (account_data stateStore)
                         (account_updatedKeys stateStore),
        db_consensusState :=
          (writeUpdated (db_consensusState da) (consensus_data stateStore)
             (consensus_updatedKeys stateStore))
            (CONSENSUS_STATE_FINALIZED_HEIGHT_KEY \<mapsto> encodeHeight finalizedHeight),
        db_diffs := (db_diffs da)(height (header block) \<mapsto>
           \<lparr>accountDiff = account_diff stateStore,
            consensusDiff = consensus_diff stateStore\<rparr>)\<rparr>"

text \<open>
  Modelled from the spec: \<^verbatim>\<open>DataAccess.deleteBlock\<close>, which reverts the persisted diff.
  The diff persisted for the block is read (its absence is a storage failure) and every
  value it records is put back; the state store handed in is released by commit in the
  same atomic write, its dirty entries being written after the revert; the block and its
  diff are deleted. The accounts put back are returned. The finalized height is left as
  it is, and the spec gives \<^verbatim>\<open>saveTempBlock\<close> no effect on the blocks, the accounts or the
  consensus state.
\<close>

definition revertDiff :: "('k \<rightharpoonup> 'v) \<Rightarrow> ('k \<times> 'v option) list \<Rightarrow> ('k \<rightharpoonup> 'v)" where
  "revertDiff db diff = fold (\<lambda>(k, previous) m. m(k := previous)) diff db"

definition dataAccess_deleteBlock ::
  "BlockHeader Block \<Rightarrow> StateStore \<Rightarrow> bool \<Rightarrow> DataAccess \<Rightarrow> (Account list \<times> DataAccess) option" where
  "dataAccess_deleteBlock block stateStore saveTempBlock da =
     (case db_diffs da (height (header block)) of
        None \<Rightarrow> None
      | Some d \<Rightarrow>
          Some (List.map_filter snd (accountDiff d),
            da\<lparr>db_blocks := filter (\<lambda>b. id' (header b) \<noteq> id' (header block)) (db_blocks da),
               db_accounts :=
                 writeUpdated (revertDiff (db_accounts da) (accountDiff d))
                   (account_data stateStore) (account_updatedKeys stateStore),
               db_consensusState :=
                 writeUpdated (revertDiff (db_consensusState da) (consensusDiff d))
                   (consensus_data stateStore) (consensus_updatedKeys stateStore),
               db_diffs := (db_diffs da)(height (header block) := None)\<rparr>))"

text \<open>
  Modelled from the spec: the sub-stores of the state store (\<^verbatim>\<open>consensus.get\<close>,
  \<^verbatim>\<open>consensus.set\<close>, \<^verbatim>\<open>account.set\<close>, \<^verbatim>\<open>account.getUpdated\<close>). A read falls through to
  the persistent store on a miss and is cached in the overlay; \<^verbatim>\<open>set\<close> marks the key
  dirty and, at the first mutation of the key, records in the diff the value the overlay
  held for it; \<^verbatim>\<open>getUpdated\<close> lists the dirty accounts in the order they were marked.
\<close>

definition consensus_get :: "DataAccess \<Rightarrow> StateStore \<Rightarrow> string \<Rightarrow> bytes option \<times> StateStore" where
  "consensus_get da s k =
     (case consensus_data s k of
        Some v \<Rightarrow> (Some v, s)
      | None \<Rightarrow>
          (case getConsensusState da k of
             None \<Rightarrow> (None, s)
           | Some v \<Rightarrow> (Some v, s\<lparr>consensus_data := (consensus_data s)(k \<mapsto> v)\<rparr>)))"

definition consensus_set :: "StateStore \<Rightarrow> string \<Rightarrow> bytes \<Rightarrow> StateStore" where
  "consensus_set s k v =
     s\<lparr>consensus_data := (consensus_data s)(k \<mapsto> v),
       consensus_updatedKeys :=
         (if k \<in> set (consensus_updatedKeys s) then consensus_updatedKeys s
          else consensus_updatedKeys s @ [k]),
       consensus_diff :=
         (if k \<in> fst ` set (consensus_diff s) then consensus_diff s
          else consensus_diff s @ [(k, consensus_data s k)])\<rparr>"

definition account_set :: "StateStore \<Rightarrow> bytes \<Rightarrow> Account \<Rightarrow> StateStore" where
  "account_set s a acc =
     s\<lparr>account_data := (account_data s)(a \<mapsto> acc),
       account_updatedKeys :=
         (if a \<in> set (account_updatedKeys s) then account_updatedKeys s
          else account_updatedKeys s @ [a]),
       account_diff :=
         (if a \<in> fst ` set (account_diff s) then account_diff s
          else account_diff s @ [(a, account_data s a)])\<rparr>"

definition account_getUpdated :: "StateStore \<Rightarrow> Account list" where
  "account_getUpdated s = List.map_filter (account_data s) (account_updatedKeys s)"

section \<open>Chain engine\<close>

datatype Event =
    EVENT_NEW_BLOCK "BlockHeader Block" "Account list"
  | EVENT_DELETE_BLOCK "BlockHeader Block" "Account list"
  | EVENT_VALIDATORS_CHANGED "Validator list"

datatype error =
    CannotDeleteGenesisBlock
  | PreviousBlockIsNull
  | PreviousValidatorSetMustExist
  | StorageNotFound

text \<open>
  The fields of the class \<^verbatim>\<open>Chain\<close>; \<open>events\<close> is the log of what the event emitter has
  emitted, oldest first.
\<close>

record Chain =
  dataAccess :: DataAccess
  events :: "Event list"
  lastBlock :: "BlockHeader Block"
  genesisBlock :: "GenesisBlockHeader Block"
  numberOfValidators :: int
  blockRewardArgs :: BlockRewardOptions
  networkIdentifier :: bytes
  defaultAccount :: Account

text \<open>
  Modelled from the spec: the constant \<^verbatim>\<open>CONSENSUS_STATE_VALIDATORS_KEY\<close> of
  \<^verbatim>\<open>constants.ts\<close> (not among the sources), the validators key of the consensus state.
\<close>

definition CONSENSUS_STATE_VALIDATORS_KEY :: string where
  "CONSENSUS_STATE_VALIDATORS_KEY = ''validators''"

text \<open>The constructor's \<^verbatim>\<open>genesisBlock as unknown as Block\<close>.\<close>

definition asBlock :: "GenesisBlockHeader Block \<Rightarrow> BlockHeader Block" where
  "asBlock g = \<lparr>header = BlockHeader.truncate (header g), payload = payload g\<rparr>"

definition calculateDefaultReward :: "Chain \<Rightarrow> int \<Rightarrow> int" where
  "calculateDefaultReward c h = block_reward_calculateDefaultReward h (blockRewardArgs c)"

text \<open>
  \<^verbatim>\<open>isValidSeedReveal\<close> of \<^verbatim>\<open>verify.ts\<close> is a parameter: the check of a header against the
  state store and the number of validators.
\<close>

definition isValidSeedReveal ::
  "(BlockHeader \<Rightarrow> StateStore \<Rightarrow> int \<Rightarrow> bool) \<Rightarrow> Chain \<Rightarrow> BlockHeader \<Rightarrow> StateStore \<Rightarrow> bool" where
  "isValidSeedReveal verify c blockHeader stateStore =
     verify blockHeader stateStore (numberOfValidators c)"

definition calculateExpectedReward ::
  "(BlockHeader \<Rightarrow> StateStore \<Rightarrow> int \<Rightarrow> bool) \<Rightarrow> Chain \<Rightarrow> BlockHeader \<Rightarrow> StateStore \<Rightarrow> int" where
  "calculateExpectedReward verify c blockHeader stateStore =
     (let defaultReward = calculateDefaultReward c (height blockHeader);
          isValid = isValidSeedReveal verify c blockHeader stateStore
      in if isValid then defaultReward else 0)"

definition newStateStore :: "Chain \<Rightarrow> int \<Rightarrow> StateStore" where
  "newStateStore c skipLastHeights =
     (let fromHeight = max 0 (height (header (lastBlock c)) - numberOfValidators c * 3
                              - skipLastHeights);
          toHeight = max (height (header (lastBlock c)) - skipLastHeights) 1;
          lastBlockHeaders = getBlockHeadersByHeightBetween (dataAccess c) fromHeight toHeight;
          lastBlockReward = calculateDefaultReward c
            (case lastBlockHeaders of [] \<Rightarrow> 1 | h # _ \<Rightarrow> height h)
      in \<lparr>account_data = Map.empty, account_updatedKeys = [], account_diff = [],
          consensus_data = Map.empty, consensus_updatedKeys = [], consensus_diff = [],
          chain_networkIdentifier = networkIdentifier c,
          chain_lastBlockHeaders = lastBlockHeaders,
          chain_lastBlockReward = lastBlockReward,
          store_defaultAccount = defaultAccount c\<rparr>)"

definition saveBlock ::
  "(int \<Rightarrow> bytes) \<Rightarrow> BlockHeader Block \<Rightarrow> StateStore \<Rightarrow> int \<Rightarrow> bool \<Rightarrow> Chain \<Rightarrow> Chain" where
  "saveBlock encodeHeight block stateStore finalizedHeight removeFromTempTable c =
     (let da1 = dataAccess_saveBlock encodeHeight block stateStore finalizedHeight
                  removeFromTempTable (dataAccess c);
          da2 = addBlockHeader (header block) da1
      in c\<lparr>dataAccess := da2, lastBlock := block,
           events := events c @ [EVENT_NEW_BLOCK block (account_getUpdated stateStore)]\<rparr>)"

text \<open>
  A throw is the first component; the second is the chain as the call leaves it.
\<close>

definition removeBlock ::
  "BlockHeader Block \<Rightarrow> StateStore \<Rightarrow> bool \<Rightarrow> Chain \<Rightarrow> error option \<times> Chain" where
  "removeBlock block stateStore saveTempBlock c =
     (if version (header block) = version (header (genesisBlock c))
      then (Some CannotDeleteGenesisBlock, c)
      else
        (case getBlockByID (dataAccess c) (previousBlockID (header block)) of
           None \<Rightarrow> (Some PreviousBlockIsNull, c)
         | Some secondLastBlock \<Rightarrow>
             (case dataAccess_deleteBlock block stateStore saveTempBlock (dataAccess c) of
                None \<Rightarrow> (Some StorageNotFound, c)
              | Some (updatedAccounts, da1) \<Rightarrow>
                  (None,
                   c\<lparr>dataAccess := removeBlockHeader (id' (header block)) da1,
                     lastBlock := secondLastBlock,
                     events := events c @ [EVENT_DELETE_BLOCK block updatedAccounts]\<rparr>))))"

text \<open>
  \<^verbatim>\<open>codec.decode(validatorsSchema, _)\<close> and \<^verbatim>\<open>codec.encode(validatorsSchema, _)\<close> belong to
  the serialization service and are the parameters \<open>decode\<close> and \<open>encode\<close>.
\<close>

definition getValidators :: "(bytes \<Rightarrow> Validator list) \<Rightarrow> Chain \<Rightarrow> Validator list" where
  "getValidators decode c =
     (case getConsensusState (dataAccess c) CONSENSUS_STATE_VALIDATORS_KEY of
        None \<Rightarrow> []
      | Some validatorsBuffer \<Rightarrow> decode validatorsBuffer)"

text \<open>
  JavaScript's \<^verbatim>\<open>a % b\<close> on integral numbers: the remainder has the sign of the dividend,
  and \<^verbatim>\<open>a % 0\<close> is \<^verbatim>\<open>NaN\<close> (\<open>None\<close>). An array read at \<^verbatim>\<open>NaN\<close>, at a negative index or
  past the end is \<^verbatim>\<open>undefined\<close> (\<open>None\<close>).
\<close>

definition js_rem :: "int \<Rightarrow> int \<Rightarrow> int option" where
  "js_rem a b = (if b = 0 then None else Some (sgn a * (\<bar>a\<bar> mod \<bar>b\<bar>)))"

definition js_index :: "'a list \<Rightarrow> int option \<Rightarrow> 'a option" where
  "js_index xs i =
     (case i of
        None \<Rightarrow> None
      | Some j \<Rightarrow> if 0 \<le> j \<and> j < int (length xs) then Some (xs ! nat j) else None)"

text \<open>\<^verbatim>\<open>slots.getSlotNumber\<close> (\<^verbatim>\<open>slots.ts\<close>) is the parameter \<open>getSlotNumber\<close>.\<close>

definition getValidator ::
  "(bytes \<Rightarrow> Validator list) \<Rightarrow> (int \<Rightarrow> int) \<Rightarrow> Chain \<Rightarrow> int \<Rightarrow> Validator option" where
  "getValidator decode getSlotNumber c timestamp' =
     (let validators = getValidators decode c;
          currentSlot = getSlotNumber timestamp'
      in js_index validators (js_rem currentSlot (int (length validators))))"

definition getLastBootstrapHeight :: "Chain \<Rightarrow> int" where
  "getLastBootstrapHeight c =
     numberOfValidators c * initRounds (asset (header (genesisBlock c)))
       + height (header (genesisBlock c))"

definition setValidators ::
  "(Validator list \<Rightarrow> bytes) \<Rightarrow> (bytes \<Rightarrow> Validator list) \<Rightarrow> Candidate list \<Rightarrow> StateStore
     \<Rightarrow> BlockHeader \<Rightarrow> Chain \<Rightarrow> error option \<times> StateStore \<times> Chain" where
  "setValidators encode decode validators stateStore blockHeader c =
     (if getLastBootstrapHeight c > height blockHeader then (None, stateStore, c)
      else
        (case consensus_get (dataAccess c) stateStore CONSENSUS_STATE_VALIDATORS_KEY of
           (None, s1) \<Rightarrow> (Some PreviousValidatorSetMustExist, s1, c)
         | (Some validatorsBuffer, s1) \<Rightarrow>
             (let previousValidators = decode validatorsBuffer;
                  nextValidatorSet =
                    map (\<lambda>nextValidator.
                      (let previousInfo =
                             find (\<lambda>pv. address pv = address nextValidator) previousValidators
                       in \<lparr>address = address nextValidator,
                           isConsensusParticipant = isConsensusParticipant nextValidator,
                           minActiveHeight =
                             (case previousInfo of
                                Some pv \<Rightarrow> minActiveHeight pv
                              | None \<Rightarrow> height blockHeader + 1)\<rparr>)) validators;
                  encodedValidators = encode nextValidatorSet
              in (None,
                  consensus_set s1 CONSENSUS_STATE_VALIDATORS_KEY encodedValidators,
                  c\<lparr>events := events c @ [EVENT_VALIDATORS_CHANGED nextValidatorSet]\<rparr>))))"

section \<open>Proof-of-misbehavior handler\<close>

text \<open>
  Modelled from the spec: \<^verbatim>\<open>PomTransactionAsset.apply\<close> (\<^verbatim>\<open>pom_transaction_asset.ts\<close>; only
  its unit test is among the sources). The spec: both headers' heights must be within
  260,000 of the current chain height; both signatures must verify; the accused must be a
  registered validator, not banned and not already punished; then the reporting height + 1
  is appended to the accused's strike list, the banned flag is set if the list reaches 5
  entries, and a reward of \<^verbatim>\<open>min(lastBlockReward, accusedBalance - minRemainingBalance)\<close>,
  floored at 0, is transferred to the reporter, the amount being 0 when reporter and accused
  are the same address. The unit test fixes the current chain height as the height of
  \<^verbatim>\<open>lastBlockHeaders[0]\<close> and the reducers as \<^verbatim>\<open>token:getBalance\<close>,
  \<^verbatim>\<open>token:getMinRemainingBalance\<close> and \<^verbatim>\<open>token:credit\<close>. Address derivation, signature
  verification and the punishment check belong to modules that are not among the sources
  and are the fields of \<open>DposUtils\<close>.
\<close>

record DposUtils =
  getAddressFromPublicKey :: "bytes \<Rightarrow> bytes"
  validateSignature :: "BlockHeader \<Rightarrow> bytes \<Rightarrow> bool"
  isPunished :: "Account \<Rightarrow> BlockHeader list \<Rightarrow> bool"

record ReducerHandler =
  token_getBalance :: "bytes \<Rightarrow> int"
  token_getMinRemainingBalance :: int

datatype ReducerCall = TokenCredit bytes int | TokenDebit bytes int

datatype PomError =
    NoLastBlockHeader
  | HeightDifference1
  | HeightDifference2
  | InvalidSignature1
  | InvalidSignature2
  | AccountNotFound
  | NotADelegate
  | AlreadyBanned
  | AlreadyPunished

record PomContext =
  senderAddress :: bytes
  header1 :: BlockHeader
  header2 :: BlockHeader
  reducerHandler :: ReducerHandler

definition MAX_PUNISHABLE_BLOCK_HEIGHT_DIFFERENCE :: int where
  "MAX_PUNISHABLE_BLOCK_HEIGHT_DIFFERENCE = 260000"

definition MAX_POM_HEIGHTS :: nat where
  "MAX_POM_HEIGHTS = 5"

text \<open>
  Modelled from the spec: \<^verbatim>\<open>account.get\<close> of the state store, a read-through like
  \<^verbatim>\<open>consensus.get\<close>; an address in neither the overlay nor the persistent store is
  not found (\<open>None\<close>).
\<close>

definition account_get :: "DataAccess \<Rightarrow> StateStore \<Rightarrow> bytes \<Rightarrow> (Account \<times> StateStore) option" where
  "account_get da s a =
     (case account_data s a of
        Some acc \<Rightarrow> Some (acc, s)
      | None \<Rightarrow>
          (case db_accounts da a of
             None \<Rightarrow> None
           | Some acc \<Rightarrow> Some (acc, s\<lparr>account_data := (account_data s)(a \<mapsto> acc)\<rparr>)))"

definition pom_reward :: "PomContext \<Rightarrow> StateStore \<Rightarrow> bytes \<Rightarrow> int" where
  "pom_reward ctx s accused =
     (if senderAddress ctx = accused then 0
      else max 0 (min (chain_lastBlockReward s)
             (token_getBalance (reducerHandler ctx) accused
                - token_getMinRemainingBalance (reducerHandler ctx))))"

definition pom_apply ::
  "DposUtils \<Rightarrow> DataAccess \<Rightarrow> PomContext \<Rightarrow> StateStore
     \<Rightarrow> PomError + (ReducerCall list \<times> StateStore)" where
  "pom_apply utils da ctx s =
     (case chain_lastBlockHeaders s of
        [] \<Rightarrow> Inl NoLastBlockHeader
      | last' # _ \<Rightarrow>
          (let currentHeight = height last' in
           if \<bar>height (header1 ctx) - currentHeight\<bar> \<ge> MAX_PUNISHABLE_BLOCK_HEIGHT_DIFFERENCE
             then Inl HeightDifference1
           else if \<bar>height (header2 ctx) - currentHeight\<bar> \<ge> MAX_PUNISHABLE_BLOCK_HEIGHT_DIFFERENCE
             then Inl HeightDifference2
           else if \<not> validateSignature utils (header1 ctx) (chain_networkIdentifier s)
             then Inl InvalidSignature1
           else if \<not> validateSignature utils (header2 ctx) (chain_networkIdentifier s)
             then Inl InvalidSignature2
           else
             (let accused = getAddressFromPublicKey utils (generatorPublicKey (header1 ctx)) in
              case account_get da s accused of
                None \<Rightarrow> Inl AccountNotFound
              | Some (delegate, s1) \<Rightarrow>
                  if username delegate = [] then Inl NotADelegate
                  else if isBanned delegate then Inl AlreadyBanned
                  else if isPunished utils delegate (chain_lastBlockHeaders s) then Inl AlreadyPunished
                  else
                    (let strikes = pomHeights delegate @ [currentHeight + 1];
                         punished = delegate\<lparr>pomHeights := strikes,
                           isBanned := (length strikes = MAX_POM_HEIGHTS)\<rparr>;
                         amount = pom_reward ctx s accused
                     in Inr ([TokenCredit (senderAddress ctx) amount, TokenDebit accused amount],
                             account_set s1 accused punished)))))"

section \<open>Example values\<close>

text \<open>
  The reward schedule of the default application configuration
  (\<^verbatim>\<open>genesisConfig.rewards\<close> in the schema snapshot), and a small chain to evaluate the
  engine on.
\<close>

definition devnetRewards :: BlockRewardOptions where
  "devnetRewards = \<lparr>distance = 3000000, rewardOffset = 2160,
     milestones = [500000000, 400000000, 300000000, 200000000, 100000000]\<rparr>"

definition exampleGenesisBlock :: "GenesisBlockHeader Block" where
  "exampleGenesisBlock =
     \<lparr>header = \<lparr>id' = [0], version = 0, timestamp = 100, height = 0, previousBlockID = [],
                 generatorPublicKey = [], reward = 0, signature = [],
                 asset = \<lparr>accounts = [], initDelegates = [[1], [2]], initRounds = 3\<rparr>\<rparr>,
      payload = []\<rparr>"

text \<open>A block of version \<open>v\<close> at height \<open>h\<close> whose predecessor is the block at \<open>h - 1\<close>.\<close>

definition exampleBlock :: "int \<Rightarrow> int \<Rightarrow> BlockHeader Block" where
  "exampleBlock v h =
     \<lparr>header = \<lparr>id' = [word_of_int h], version = v, timestamp = 100 + 10 * h, height = h,
                 previousBlockID = [word_of_int (h - 1)],
                 generatorPublicKey = [1], reward = 0, signature = []\<rparr>,
      payload = []\<rparr>"

definition exampleAccount :: "bytes \<Rightarrow> Account" where
  "exampleAccount a = \<lparr>address = a, username = ''delegate'', pomHeights = [], isBanned = False\<rparr>"

definition exampleDataAccess :: "BlockHeader Block list \<Rightarrow> DataAccess" where
  "exampleDataAccess bs =
     \<lparr>db_blocks = bs, db_accounts = Map.empty,
      db_consensusState = [CONSENSUS_STATE_VALIDATORS_KEY \<mapsto> [7]],
      db_diffs = Map.empty, blocksCache = map header bs, maxBlockHeaderCache = 500\<rparr>"

text \<open>A chain over the persisted blocks \<open>bs\<close> (newest first) with two validators.\<close>

definition exampleChain :: "BlockHeader Block list \<Rightarrow> Chain" where
  "exampleChain bs =
     \<lparr>dataAccess = exampleDataAccess bs, events = [],
      lastBlock = (case bs of [] \<Rightarrow> asBlock exampleGenesisBlock | b # _ \<Rightarrow> b),
      genesisBlock = exampleGenesisBlock, numberOfValidators = 2,
      blockRewardArgs = devnetRewards, networkIdentifier = [9],
      defaultAccount = exampleAccount []\<rparr>"

text \<open>A state store in which the account at address \<open>[5]\<close> is dirty.\<close>

definition exampleStateStore :: StateStore where
  "exampleStateStore =
     \<lparr>account_data = [[5] \<mapsto> exampleAccount [5]], account_updatedKeys = [[5]],
      account_diff = [([5], None)],
      consensus_data = Map.empty, consensus_updatedKeys = [], consensus_diff = [],
      chain_networkIdentifier = [9], chain_lastBlockHeaders = [], chain_lastBlockReward = 0,
      store_defaultAccount = exampleAccount []\<rparr>"


text \<open>
  The scene of the handler's unit test: the last block at height 8760000 with a reward of
  69 tokens, an accused delegate with four strikes and a balance one short of the reward,
  a minimum remaining balance of 5000000, every signature valid and no punishment in
  force.
\<close>

definition exampleUtils :: DposUtils where
  "exampleUtils = \<lparr>getAddressFromPublicKey = (\<lambda>pk. pk), validateSignature = (\<lambda>h n. True),
     isPunished = (\<lambda>a hs. False)\<rparr>"

definition examplePomContext :: "bytes \<Rightarrow> PomContext" where
  "examplePomContext sender =
     \<lparr>senderAddress = sender,
      header1 = header (exampleBlock 2 8759232),
      header2 = header (exampleBlock 2 8759247),
      reducerHandler = \<lparr>token_getBalance = (\<lambda>a. 6899999999),
                        token_getMinRemainingBalance = 5000000\<rparr>\<rparr>"

definition examplePomStore :: StateStore where
  "examplePomStore =
     \<lparr>account_data = [[1] \<mapsto> (exampleAccount [1])\<lparr>pomHeights := [500, 1000, 2000, 4550]\<rparr>],
      account_updatedKeys = [], account_diff = [],
      consensus_data = Map.empty, consensus_updatedKeys = [], consensus_diff = [],
      chain_networkIdentifier = [9],
      chain_lastBlockHeaders = [header (exampleBlock 2 8760000)],
      chain_lastBlockReward = 6900000000,
      store_defaultAccount = exampleAccount []\<rparr>"

lemmas example_defs = devnetRewards_def exampleGenesisBlock_def exampleBlock_def
  exampleAccount_def exampleDataAccess_def exampleChain_def exampleStateStore_def asBlock_def
  BlockHeader.truncate_def

section \<open>Removing a block\<close>

text \<open>
  C2: for every chain state, \<^verbatim>\<open>removeBlock\<close> called with the genesis block throws
  \<^verbatim>\<open>Cannot delete genesis block\<close>, and the chain it leaves is the chain it was given: the
  tip, the storage, the header cache and the event log are unchanged.
\<close>

theorem removeBlock_genesis_fails:
  "removeBlock (asBlock (genesisBlock c)) stateStore saveTempBlock c
     = (Some CannotDeleteGenesisBlock, c)"
  by (simp add: removeBlock_def asBlock_def BlockHeader.truncate_def)

text \<open>
  C8: the genesis guard of \<^verbatim>\<open>removeBlock\<close> compares header versions. Every block whose
  header version equals the genesis block's, the genesis block itself or not, makes
  \<^verbatim>\<open>removeBlock\<close> throw \<^verbatim>\<open>Cannot delete genesis block\<close> with the chain untouched.
\<close>

theorem removeBlock_version_guard:
  assumes "version (header block) = version (header (genesisBlock c))"
  shows "removeBlock block stateStore saveTempBlock c = (Some CannotDeleteGenesisBlock, c)"
  using assms by (simp add: removeBlock_def)

text \<open>The guard at a block of height 1 that is not the genesis block but has its version.\<close>

theorem removeBlock_version_guard_witness:
  "exampleBlock 0 1 \<noteq> asBlock exampleGenesisBlock
   \<and> removeBlock (exampleBlock 0 1) exampleStateStore False
        (exampleChain [exampleBlock 0 1, asBlock exampleGenesisBlock])
      = (Some CannotDeleteGenesisBlock,
         exampleChain [exampleBlock 0 1, asBlock exampleGenesisBlock])"
proof -
  have v: "version (header (exampleBlock 0 1))
      = version (header (genesisBlock
          (exampleChain [exampleBlock 0 1, asBlock exampleGenesisBlock])))"
    by (simp add: example_defs)
  have "exampleBlock 0 1 \<noteq> asBlock exampleGenesisBlock"
    by (simp add: example_defs)
  with removeBlock_version_guard [OF v] show ?thesis by simp
qed

section \<open>Expected reward\<close>

text \<open>
  C4: \<^verbatim>\<open>calculateExpectedReward(header, stateStore)\<close> is
  \<^verbatim>\<open>calculateDefaultReward(header.height)\<close> when the seed-reveal check of the header passes
  and 0 when it fails.
\<close>

theorem calculateExpectedReward_cases:
  "(verify blockHeader stateStore (numberOfValidators c) \<longrightarrow>
      calculateExpectedReward verify c blockHeader stateStore
        = calculateDefaultReward c (height blockHeader))
   \<and> (\<not> verify blockHeader stateStore (numberOfValidators c) \<longrightarrow>
      calculateExpectedReward verify c blockHeader stateStore = 0)"
  by (simp add: calculateExpectedReward_def isValidSeedReveal_def)

text \<open>A header at height 2161 under a check that passes and under one that fails.\<close>

theorem calculateExpectedReward_cases_witness:
  "calculateExpectedReward (\<lambda>h s n. n = 2) (exampleChain []) (header (exampleBlock 2 2161))
      exampleStateStore = 500000000
   \<and> calculateExpectedReward (\<lambda>h s n. n = 3) (exampleChain []) (header (exampleBlock 2 2161))
      exampleStateStore = 0"
proof -
  have n: "numberOfValidators (exampleChain []) = 2"
    by (simp add: exampleChain_def)
  have r: "calculateDefaultReward (exampleChain []) (height (header (exampleBlock 2 2161)))
      = 500000000"
    by (simp add: calculateDefaultReward_def block_reward_calculateDefaultReward_def
        example_defs)
  from calculateExpectedReward_cases [of "\<lambda>h s n. n = 2" "header (exampleBlock 2 2161)"
        exampleStateStore "exampleChain []"]
    calculateExpectedReward_cases [of "\<lambda>h s n. n = 3" "header (exampleBlock 2 2161)"
        exampleStateStore "exampleChain []"]
    n r show ?thesis by simp
qed

section \<open>Rotating the validator set\<close>

lemma consensus_get_None:
  assumes "fst (consensus_get da s k) = None"
  shows "consensus_get da s k = (None, s)"
  using assms by (simp add: consensus_get_def split: option.splits)

lemma find_present:
  assumes "a \<in> address ` set prev"
  shows "\<exists>pv \<in> set prev. address pv = a \<and> find (\<lambda>pv. address pv = a) prev = Some pv"
  using assms by (induction prev) auto

lemma find_absent:
  assumes "a \<notin> address ` set prev"
  shows "find (\<lambda>pv. address pv = a) prev = None"
  using assms by (induction prev) auto

text \<open>
  C10: when \<^verbatim>\<open>setValidators\<close> is called with \<^verbatim>\<open>header.height\<close> at or above the bootstrap
  height and the consensus sub-store gives no value for the validators key, the call throws
  \<^verbatim>\<open>Previous validator set must exist\<close>; the state store and the chain are as they were
  given, so no validator set is written and no \<^verbatim>\<open>ValidatorsChanged\<close> event is emitted.
\<close>

theorem setValidators_no_previous_set:
  assumes "getLastBootstrapHeight c \<le> height blockHeader"
    and "fst (consensus_get (dataAccess c) stateStore CONSENSUS_STATE_VALIDATORS_KEY) = None"
  shows "setValidators encode decode validators stateStore blockHeader c
           = (Some PreviousValidatorSetMustExist, stateStore, c)"
proof -
  from assms(2) have "consensus_get (dataAccess c) stateStore CONSENSUS_STATE_VALIDATORS_KEY
      = (None, stateStore)"
    by (rule consensus_get_None)
  with assms(1) show ?thesis
    by (simp add: setValidators_def)
qed

text \<open>
  A chain whose persistent store has no validator set, at height 6 (the bootstrap height
  of two validators and three initial rounds).
\<close>

theorem setValidators_no_previous_set_witness:
  "setValidators (\<lambda>vs. [8]) (\<lambda>b. []) [\<lparr>address = [1], isConsensusParticipant = True\<rparr>]
       exampleStateStore (header (exampleBlock 2 6))
       ((exampleChain [])\<lparr>dataAccess := (exampleDataAccess [])\<lparr>db_consensusState := Map.empty\<rparr>\<rparr>)
     = (Some PreviousValidatorSetMustExist, exampleStateStore,
        (exampleChain [])\<lparr>dataAccess := (exampleDataAccess [])\<lparr>db_consensusState := Map.empty\<rparr>\<rparr>)"
proof -
  let ?c = "(exampleChain [])\<lparr>dataAccess := (exampleDataAccess [])\<lparr>db_consensusState := Map.empty\<rparr>\<rparr>"
  have b: "getLastBootstrapHeight ?c \<le> height (header (exampleBlock 2 6))"
    by (simp add: getLastBootstrapHeight_def example_defs)
  have n: "fst (consensus_get (dataAccess ?c) exampleStateStore CONSENSUS_STATE_VALIDATORS_KEY) = None"
    by (simp add: consensus_get_def getConsensusState_def example_defs)
  from setValidators_no_previous_set [OF b n] show ?thesis .
qed

text \<open>
  C5, as the code has it: below the bootstrap height \<^verbatim>\<open>setValidators\<close> returns with the
  state store and the chain unchanged. At or above it, and when the consensus sub-store
  gives a previous validator set, the call writes a list \<open>next\<close> with one entry per
  candidate, in order, carrying the candidate's address and participant flag; the entry's
  \<^verbatim>\<open>minActiveHeight\<close> is that of the first previous validator with the candidate's address
  when there is one, and \<^verbatim>\<open>header.height + 1\<close> otherwise; the encoded list is set under the
  validators key and \<^verbatim>\<open>ValidatorsChanged\<close> is emitted with it.
\<close>

theorem setValidators_rotation:
  "(height blockHeader < getLastBootstrapHeight c \<longrightarrow>
      setValidators encode decode validators stateStore blockHeader c = (None, stateStore, c))
   \<and> (getLastBootstrapHeight c \<le> height blockHeader
       \<and> consensus_get (dataAccess c) stateStore CONSENSUS_STATE_VALIDATORS_KEY = (Some buf, s1) \<longrightarrow>
      (\<exists>next.
         setValidators encode decode validators stateStore blockHeader c
           = (None, consensus_set s1 CONSENSUS_STATE_VALIDATORS_KEY (encode next),
              c\<lparr>events := events c @ [EVENT_VALIDATORS_CHANGED next]\<rparr>)
         \<and> length next = length validators
         \<and> (\<forall>i < length validators.
              address (next ! i) = address (validators ! i)
              \<and> isConsensusParticipant (next ! i) = isConsensusParticipant (validators ! i)
              \<and> (address (validators ! i) \<in> address ` set (decode buf) \<longrightarrow>
                   (\<exists>pv \<in> set (decode buf). address pv = address (validators ! i)
                      \<and> find (\<lambda>pv. address pv = address (validators ! i)) (decode buf) = Some pv
                      \<and> minActiveHeight (next ! i) = minActiveHeight pv))
              \<and> (address (validators ! i) \<notin> address ` set (decode buf) \<longrightarrow>
                   minActiveHeight (next ! i) = height blockHeader + 1))))"
proof (intro conjI impI)
  assume "height blockHeader < getLastBootstrapHeight c"
  then show "setValidators encode decode validators stateStore blockHeader c = (None, stateStore, c)"
    by (simp add: setValidators_def)
next
  assume a: "getLastBootstrapHeight c \<le> height blockHeader
       \<and> consensus_get (dataAccess c) stateStore CONSENSUS_STATE_VALIDATORS_KEY = (Some buf, s1)"
  let ?prev = "decode buf"
  let ?f = "\<lambda>nextValidator.
      \<lparr>address = address nextValidator,
       isConsensusParticipant = isConsensusParticipant nextValidator,
       minActiveHeight =
         (case find (\<lambda>pv. address pv = address nextValidator) ?prev of
            Some pv \<Rightarrow> minActiveHeight pv
          | None \<Rightarrow> height blockHeader + 1)\<rparr>"
  let ?next = "map ?f validators"
  have run: "setValidators encode decode validators stateStore blockHeader c
           = (None, consensus_set s1 CONSENSUS_STATE_VALIDATORS_KEY (encode ?next),
              c\<lparr>events := events c @ [EVENT_VALIDATORS_CHANGED ?next]\<rparr>)"
    using a by (simp add: setValidators_def Let_def)
  have each: "address (?next ! i) = address (validators ! i)
              \<and> isConsensusParticipant (?next ! i) = isConsensusParticipant (validators ! i)
              \<and> (address (validators ! i) \<in> address ` set ?prev \<longrightarrow>
                   (\<exists>pv \<in> set ?prev. address pv = address (validators ! i)
                      \<and> find (\<lambda>pv. address pv = address (validators ! i)) ?prev = Some pv
                      \<and> minActiveHeight (?next ! i) = minActiveHeight pv))
              \<and> (address (validators ! i) \<notin> address ` set ?prev \<longrightarrow>
                   minActiveHeight (?next ! i) = height blockHeader + 1)"
    if i: "i < length validators" for i
  proof (intro conjI impI)
    show "address (?next ! i) = address (validators ! i)"
      using i by simp
    show "isConsensusParticipant (?next ! i) = isConsensusParticipant (validators ! i)"
      using i by simp
  next
    assume "address (validators ! i) \<in> address ` set ?prev"
    from find_present [OF this] obtain pv where
      pv: "pv \<in> set ?prev" "address pv = address (validators ! i)"
        "find (\<lambda>pv. address pv = address (validators ! i)) ?prev = Some pv"
      by blast
    then have "minActiveHeight (?next ! i) = minActiveHeight pv"
      using i by simp
    with pv show "\<exists>pv \<in> set ?prev. address pv = address (validators ! i)
                      \<and> find (\<lambda>pv. address pv = address (validators ! i)) ?prev = Some pv
                      \<and> minActiveHeight (?next ! i) = minActiveHeight pv"
      by blast
  next
    assume "address (validators ! i) \<notin> address ` set ?prev"
    from find_absent [OF this] show "minActiveHeight (?next ! i) = height blockHeader + 1"
      using i by simp
  qed
  show "\<exists>next.
         setValidators encode decode validators stateStore blockHeader c
           = (None, consensus_set s1 CONSENSUS_STATE_VALIDATORS_KEY (encode next),
              c\<lparr>events := events c @ [EVENT_VALIDATORS_CHANGED next]\<rparr>)
         \<and> length next = length validators
         \<and> (\<forall>i < length validators.
              address (next ! i) = address (validators ! i)
              \<and> isConsensusParticipant (next ! i) = isConsensusParticipant (validators ! i)
              \<and> (address (validators ! i) \<in> address ` set (decode buf) \<longrightarrow>
                   (\<exists>pv \<in> set (decode buf). address pv = address (validators ! i)
                      \<and> find (\<lambda>pv. address pv = address (validators ! i)) (decode buf) = Some pv
                      \<and> minActiveHeight (next ! i) = minActiveHeight pv))
              \<and> (address (validators ! i) \<notin> address ` set (decode buf) \<longrightarrow>
                   minActiveHeight (next ! i) = height blockHeader + 1))"
    using run each by (intro exI [of _ ?next]) simp
qed

text \<open>
  Height 5 is below the bootstrap height 6 of the example chain; at height 6 the carried-over
  validator \<open>[1]\<close> keeps \<^verbatim>\<open>minActiveHeight = 1\<close> and the new validator \<open>[3]\<close> gets 7.
\<close>

theorem setValidators_rotation_witness:
  "setValidators (\<lambda>vs. [8]) (\<lambda>b. [\<lparr>address = [1], isConsensusParticipant = False, minActiveHeight = 1\<rparr>])
       [\<lparr>address = [1], isConsensusParticipant = True\<rparr>, \<lparr>address = [3], isConsensusParticipant = False\<rparr>]
       exampleStateStore (header (exampleBlock 2 5)) (exampleChain [])
     = (None, exampleStateStore, exampleChain [])
   \<and> (\<exists>next. length next = 2
        \<and> minActiveHeight (next ! 0) = 1 \<and> minActiveHeight (next ! 1) = 7
        \<and> fst (setValidators (\<lambda>vs. [8])
              (\<lambda>b. [\<lparr>address = [1], isConsensusParticipant = False, minActiveHeight = 1\<rparr>])
              [\<lparr>address = [1], isConsensusParticipant = True\<rparr>, \<lparr>address = [3], isConsensusParticipant = False\<rparr>]
              exampleStateStore (header (exampleBlock 2 6)) (exampleChain [])) = None
        \<and> events (snd (snd (setValidators (\<lambda>vs. [8])
              (\<lambda>b. [\<lparr>address = [1], isConsensusParticipant = False, minActiveHeight = 1\<rparr>])
              [\<lparr>address = [1], isConsensusParticipant = True\<rparr>, \<lparr>address = [3], isConsensusParticipant = False\<rparr>]
              exampleStateStore (header (exampleBlock 2 6)) (exampleChain []))))
            = [EVENT_VALIDATORS_CHANGED next])"
proof -
  let ?enc = "\<lambda>vs :: Validator list. [8 :: 8 word]"
  let ?dec = "\<lambda>b :: bytes. [\<lparr>address = [1], isConsensusParticipant = False, minActiveHeight = 1\<rparr>]"
  let ?cands = "[\<lparr>address = [1], isConsensusParticipant = True\<rparr>,
                 \<lparr>address = [3 :: 8 word], isConsensusParticipant = False\<rparr>]"
  let ?s1 = "exampleStateStore\<lparr>consensus_data := (consensus_data exampleStateStore)
               (CONSENSUS_STATE_VALIDATORS_KEY \<mapsto> [7])\<rparr>"
  have low: "height (header (exampleBlock 2 5)) < getLastBootstrapHeight (exampleChain [])"
    by (simp add: getLastBootstrapHeight_def example_defs)
  have high: "getLastBootstrapHeight (exampleChain []) \<le> height (header (exampleBlock 2 6))"
    by (simp add: getLastBootstrapHeight_def example_defs)
  have prev: "consensus_get (dataAccess (exampleChain [])) exampleStateStore
      CONSENSUS_STATE_VALIDATORS_KEY = (Some [7], ?s1)"
    by (simp add: consensus_get_def getConsensusState_def example_defs)
  have h6: "height (header (exampleBlock 2 6)) = 6"
    by (simp add: example_defs)
  note below = setValidators_rotation [of "header (exampleBlock 2 5)" "exampleChain []" ?enc ?dec
      ?cands exampleStateStore "[7]" ?s1]
  note above = setValidators_rotation [of "header (exampleBlock 2 6)" "exampleChain []" ?enc ?dec
      ?cands exampleStateStore "[7]" ?s1]
  from below low have 1: "setValidators ?enc ?dec ?cands exampleStateStore
      (header (exampleBlock 2 5)) (exampleChain []) = (None, exampleStateStore, exampleChain [])"
    by blast
  from above high prev obtain "next" where
      run: "setValidators ?enc ?dec ?cands exampleStateStore (header (exampleBlock 2 6))
          (exampleChain [])
        = (None, consensus_set ?s1 CONSENSUS_STATE_VALIDATORS_KEY (?enc next),
           (exampleChain [])\<lparr>events := events (exampleChain []) @ [EVENT_VALIDATORS_CHANGED next]\<rparr>)"
      and len: "length next = length ?cands"
      and each: "\<forall>i < length ?cands.
              address (next ! i) = address (?cands ! i)
              \<and> isConsensusParticipant (next ! i) = isConsensusParticipant (?cands ! i)
              \<and> (address (?cands ! i) \<in> address ` set (?dec [7]) \<longrightarrow>
                   (\<exists>pv \<in> set (?dec [7]). address pv = address (?cands ! i)
                      \<and> find (\<lambda>pv. address pv = address (?cands ! i)) (?dec [7]) = Some pv
                      \<and> minActiveHeight (next ! i) = minActiveHeight pv))
              \<and> (address (?cands ! i) \<notin> address ` set (?dec [7]) \<longrightarrow>
                   minActiveHeight (next ! i) = height (header (exampleBlock 2 6)) + 1)"
    by blast
  from each have "minActiveHeight (next ! 0) = 1"
    by (simp add: All_less_Suc2) 
  moreover from each h6 have "minActiveHeight (next ! 1) = 7"
    by (simp add: All_less_Suc2)
  moreover have "events (exampleChain []) = []"
    by (simp add: exampleChain_def)
  ultimately show ?thesis
    using 1 run len by (intro conjI exI [of _ "next"]) simp_all
qed

text \<open>
  Without the condition on the previous set the statement fails: at height 7, above the
  bootstrap height, with no validator set in the store, the call throws, nothing is set
  under the validators key and no event is emitted.
\<close>

theorem setValidators_rotation_counterexample:
  "getLastBootstrapHeight
       ((exampleChain [])\<lparr>dataAccess := (exampleDataAccess [])\<lparr>db_consensusState := Map.empty\<rparr>\<rparr>)
     \<le> height (header (exampleBlock 2 7))
   \<and> fst (setValidators (\<lambda>vs. [8]) (\<lambda>b. []) [\<lparr>address = [3], isConsensusParticipant = False\<rparr>]
       exampleStateStore (header (exampleBlock 2 7))
       ((exampleChain [])\<lparr>dataAccess := (exampleDataAccess [])\<lparr>db_consensusState := Map.empty\<rparr>\<rparr>))
     = Some PreviousValidatorSetMustExist
   \<and> consensus_data (fst (snd (setValidators (\<lambda>vs. [8]) (\<lambda>b. []) [\<lparr>address = [3], isConsensusParticipant = False\<rparr>]
       exampleStateStore (header (exampleBlock 2 7))
       ((exampleChain [])\<lparr>dataAccess := (exampleDataAccess [])\<lparr>db_consensusState := Map.empty\<rparr>\<rparr>))))
       CONSENSUS_STATE_VALIDATORS_KEY = None
   \<and> events (snd (snd (setValidators (\<lambda>vs. [8]) (\<lambda>b. []) [\<lparr>address = [3], isConsensusParticipant = False\<rparr>]
       exampleStateStore (header (exampleBlock 2 7))
       ((exampleChain [])\<lparr>dataAccess := (exampleDataAccess [])\<lparr>db_consensusState := Map.empty\<rparr>\<rparr>)))) = []"
  by (simp add: setValidators_def consensus_get_def getConsensusState_def
      getLastBootstrapHeight_def example_defs)

section \<open>The validator of a slot\<close>

lemma js_rem_nonneg:
  assumes "0 \<le> a" "0 < b"
  shows "js_rem a b = Some (a mod b)"
  using assms by (cases "a = 0") (simp_all add: js_rem_def)

text \<open>
  C9, as the code has it: when the validator set is empty, \<^verbatim>\<open>getValidator\<close> yields no
  validator for every timestamp (the index is \<^verbatim>\<open>slot % 0\<close>); when the set is not empty and
  the slot number of the timestamp is not negative, it yields the validator at
  \<^verbatim>\<open>slot mod length\<close>.
\<close>

theorem getValidator_defined:
  "(getValidators decode c = [] \<longrightarrow> getValidator decode getSlotNumber c t = None)
   \<and> (getValidators decode c \<noteq> [] \<and> 0 \<le> getSlotNumber t \<longrightarrow>
        getValidator decode getSlotNumber c t
          = Some (getValidators decode c
                    ! nat (getSlotNumber t mod int (length (getValidators decode c)))))"
proof (intro conjI impI)
  assume "getValidators decode c = []"
  then show "getValidator decode getSlotNumber c t = None"
    by (simp add: getValidator_def js_rem_def js_index_def)
next
  assume a: "getValidators decode c \<noteq> [] \<and> 0 \<le> getSlotNumber t"
  let ?vs = "getValidators decode c"
  let ?n = "int (length ?vs)"
  from a have n: "0 < ?n" by simp
  with a have r: "js_rem (getSlotNumber t) ?n = Some (getSlotNumber t mod ?n)"
    by (simp add: js_rem_nonneg)
  have lo: "0 \<le> getSlotNumber t mod ?n" and hi: "getSlotNumber t mod ?n < ?n"
    using n by simp_all
  from r lo hi show "getValidator decode getSlotNumber c t
          = Some (?vs ! nat (getSlotNumber t mod ?n))"
    by (simp add: getValidator_def js_index_def Let_def)
qed

text \<open>
  Timestamp 130 is slot 3 of a chain whose genesis timestamp is 100 and whose block time
  is 10: no validator of an empty set, the second of a set of two.
\<close>

theorem getValidator_defined_witness:
  "getValidator (\<lambda>b. []) (\<lambda>t. (t - 100) div 10) (exampleChain []) 130 = None
   \<and> getValidator (\<lambda>b. [\<lparr>address = [1], isConsensusParticipant = False, minActiveHeight = 1\<rparr>,
                         \<lparr>address = [2], isConsensusParticipant = False, minActiveHeight = 1\<rparr>])
        (\<lambda>t. (t - 100) div 10) (exampleChain []) 130
      = Some \<lparr>address = [2], isConsensusParticipant = False, minActiveHeight = 1\<rparr>"
proof -
  let ?dec = "\<lambda>b :: bytes. [\<lparr>address = [1 :: 8 word], isConsensusParticipant = False, minActiveHeight = 1\<rparr>,
                         \<lparr>address = [2], isConsensusParticipant = False, minActiveHeight = 1\<rparr>]"
  have e: "getValidators (\<lambda>b. []) (exampleChain []) = []"
    by (simp add: getValidators_def getConsensusState_def example_defs)
  have v: "getValidators ?dec (exampleChain []) = ?dec []"
    by (simp add: getValidators_def getConsensusState_def example_defs)
  from getValidator_defined [of "\<lambda>b. []" "exampleChain []" "\<lambda>t. (t - 100) div 10" 130]
    getValidator_defined [of ?dec "exampleChain []" "\<lambda>t. (t - 100) div 10" 130] e v
  show ?thesis by simp
qed

text \<open>
  The undefined result is not confined to the empty set: timestamp 90 lies before the
  genesis timestamp, its slot is -1, \<^verbatim>\<open>-1 % 2\<close> is -1 and the read at index -1 yields no
  validator although the set holds two.
\<close>

theorem getValidator_defined_counterexample:
  "getValidators (\<lambda>b. [\<lparr>address = [1], isConsensusParticipant = False, minActiveHeight = 1\<rparr>,
                         \<lparr>address = [2], isConsensusParticipant = False, minActiveHeight = 1\<rparr>])
      (exampleChain []) \<noteq> []
   \<and> getValidator (\<lambda>b. [\<lparr>address = [1], isConsensusParticipant = False, minActiveHeight = 1\<rparr>,
                         \<lparr>address = [2], isConsensusParticipant = False, minActiveHeight = 1\<rparr>])
        (\<lambda>t. (t - 100) div 10) (exampleChain []) 90 = None"
  by (simp add: getValidator_def getValidators_def getConsensusState_def js_rem_def js_index_def
      example_defs)

section \<open>The reward schedule\<close>

lemma div_interval:
  fixes d k x :: int
  assumes "0 < d" "k * d \<le> x" "x < (k + 1) * d"
  shows "x div d = k"
proof -
  have "x = (x - k * d) + k * d" by simp
  then have "x div d = (x - k * d) div d + k"
    using assms(1) by (metis div_mult_self1 less_irrefl add.commute mult.commute)
  moreover have "(x - k * d) div d = 0"
    using assms by (simp add: algebra_simps)
  ultimately show ?thesis by simp
qed

lemma div_lower:
  fixes d x :: int
  assumes "0 < d" "n * d \<le> x"
  shows "n \<le> x div d"
proof -
  have "(n * d) div d \<le> x div d"
    using assms by (rule_tac zdiv_mono1) simp_all
  with assms(1) show ?thesis by simp
qed

lemma reward_as_index:
  assumes "milestones args \<noteq> []" "rewardOffset args \<le> h"
  shows "block_reward_calculateDefaultReward h args
     = milestones args ! min (nat ((h - rewardOffset args) div distance args))
                             (length (milestones args) - 1)"
proof -
  let ?loc = "(h - rewardOffset args) div distance args"
  let ?ms = "milestones args"
  show ?thesis
  proof (cases "int (length ?ms) \<le> ?loc")
    case True
    then have "min (nat ?loc) (length ?ms - 1) = length ?ms - 1"
      by linarith
    with True assms show ?thesis
      by (simp add: block_reward_calculateDefaultReward_def last_conv_nth)
  next
    case False
    then have "min (nat ?loc) (length ?ms - 1) = nat ?loc"
      by linarith
    with False assms show ?thesis
      by (simp add: block_reward_calculateDefaultReward_def Let_def)
  qed
qed

lemma descending_nth:
  assumes "sorted_wrt (\<lambda>a b. b \<le> a) ms" "i \<le> j" "j < length ms"
  shows "ms ! j \<le> (ms ! i :: int)"
proof (cases "i = j")
  case True
  then show ?thesis by simp
next
  case False
  with assms have "i < j" by simp
  from sorted_wrt_nth_less [OF assms(1) this assms(3)] show ?thesis .
qed

lemma reward_mono:
  assumes desc: "sorted_wrt (\<lambda>a b. b \<le> a) (milestones args)"
    and ne: "milestones args \<noteq> []"
    and dist: "0 < distance args"
    and h: "rewardOffset args \<le> h1" "h1 \<le> h2"
  shows "block_reward_calculateDefaultReward h2 args \<le> block_reward_calculateDefaultReward h1 args"
proof -
  let ?ms = "milestones args"
  let ?i = "\<lambda>h. min (nat ((h - rewardOffset args) div distance args)) (length ?ms - 1)"
  have "(h1 - rewardOffset args) div distance args \<le> (h2 - rewardOffset args) div distance args"
    using dist h by (simp add: zdiv_mono1)
  then have "nat ((h1 - rewardOffset args) div distance args)
      \<le> nat ((h2 - rewardOffset args) div distance args)"
    by (rule nat_mono)
  then have le: "?i h1 \<le> ?i h2"
    by linarith
  have "0 < length ?ms"
    using ne by simp
  then have "?i h2 < length ?ms"
    by linarith
  with desc le have "?ms ! ?i h2 \<le> ?ms ! ?i h1"
    by (rule descending_nth)
  with h ne show ?thesis
    by (simp add: reward_as_index)
qed

lemma reward_constant:
  assumes dist: "0 < distance args"
    and a: "0 \<le> k" "rewardOffset args + k * distance args \<le> h"
       "h < rewardOffset args + (k + 1) * distance args"
  shows "block_reward_calculateDefaultReward h args =
              block_reward_calculateDefaultReward (rewardOffset args + k * distance args) args"
proof -
  let ?d = "distance args"
  have lo: "k * ?d \<le> h - rewardOffset args" and hi: "h - rewardOffset args < (k + 1) * ?d"
    using a by linarith+
  have "(h - rewardOffset args) div ?d = k"
    using dist lo hi by (rule div_interval)
  moreover have "(rewardOffset args + k * ?d - rewardOffset args) div ?d = k"
    using dist by simp
  moreover have "0 \<le> k * ?d"
    using a(1) dist by simp
  ultimately show ?thesis
    using a(2) by (simp add: block_reward_calculateDefaultReward_def)
qed

lemma reward_exhausted:
  assumes dist: "0 < distance args"
    and a: "rewardOffset args + int (length (milestones args)) * distance args \<le> h"
  shows "block_reward_calculateDefaultReward h args = last (milestones args)"
proof -
  let ?d = "distance args"
  have "int (length (milestones args)) * ?d \<le> h - rewardOffset args"
    using a by linarith
  with dist have "int (length (milestones args)) \<le> (h - rewardOffset args) div ?d"
    by (rule div_lower)
  moreover have "0 \<le> int (length (milestones args)) * ?d"
    using dist by simp
  ultimately show ?thesis
    using a by (simp add: block_reward_calculateDefaultReward_def)
qed

text \<open>
  C3, as the schedule has it: for a descending, non-empty milestone list and a positive
  distance, \<^verbatim>\<open>calculateDefaultReward\<close> is non-increasing over the heights from
  \<^verbatim>\<open>rewardOffset\<close> on; it is exactly 0 at every height below \<^verbatim>\<open>rewardOffset\<close>; it is
  constant between consecutive milestone boundaries (the \<open>k\<close>-th boundary is
  \<^verbatim>\<open>rewardOffset + k * distance\<close>); and from the boundary at which the list is exhausted
  on it is the last milestone.
\<close>

theorem calculateDefaultReward_schedule:
  assumes "sorted_wrt (\<lambda>a b. b \<le> a) (milestones (blockRewardArgs c))"
    and "milestones (blockRewardArgs c) \<noteq> []"
    and "0 < distance (blockRewardArgs c)"
  shows "(\<forall>h1 h2. rewardOffset (blockRewardArgs c) \<le> h1 \<and> h1 \<le> h2 \<longrightarrow>
            calculateDefaultReward c h2 \<le> calculateDefaultReward c h1)
       \<and> (\<forall>h. h < rewardOffset (blockRewardArgs c) \<longrightarrow> calculateDefaultReward c h = 0)
       \<and> (\<forall>h k. 0 \<le> k
              \<and> rewardOffset (blockRewardArgs c) + k * distance (blockRewardArgs c) \<le> h
              \<and> h < rewardOffset (blockRewardArgs c) + (k + 1) * distance (blockRewardArgs c) \<longrightarrow>
            calculateDefaultReward c h
              = calculateDefaultReward c
                  (rewardOffset (blockRewardArgs c) + k * distance (blockRewardArgs c)))
       \<and> (\<forall>h. rewardOffset (blockRewardArgs c)
                 + int (length (milestones (blockRewardArgs c))) * distance (blockRewardArgs c) \<le> h
              \<longrightarrow> calculateDefaultReward c h = last (milestones (blockRewardArgs c)))"
proof (intro conjI allI impI)
  fix h1 h2
  assume "rewardOffset (blockRewardArgs c) \<le> h1 \<and> h1 \<le> h2"
  with assms show "calculateDefaultReward c h2 \<le> calculateDefaultReward c h1"
    by (simp add: calculateDefaultReward_def reward_mono)
next
  fix h
  assume "h < rewardOffset (blockRewardArgs c)"
  then show "calculateDefaultReward c h = 0"
    by (simp add: calculateDefaultReward_def block_reward_calculateDefaultReward_def)
next
  fix h k
  assume "0 \<le> k
       \<and> rewardOffset (blockRewardArgs c) + k * distance (blockRewardArgs c) \<le> h
       \<and> h < rewardOffset (blockRewardArgs c) + (k + 1) * distance (blockRewardArgs c)"
  with assms(3) show "calculateDefaultReward c h
      = calculateDefaultReward c
          (rewardOffset (blockRewardArgs c) + k * distance (blockRewardArgs c))"
    unfolding calculateDefaultReward_def by (intro reward_constant) simp_all
next
  fix h
  assume "rewardOffset (blockRewardArgs c)
      + int (length (milestones (blockRewardArgs c))) * distance (blockRewardArgs c) \<le> h"
  with assms(3) show "calculateDefaultReward c h = last (milestones (blockRewardArgs c))"
    unfolding calculateDefaultReward_def by (rule reward_exhausted)
qed

text \<open>
  The default schedule: offset 2160, distance 3000000, milestones from 500000000 down to
  100000000.
\<close>

theorem calculateDefaultReward_schedule_witness:
  "calculateDefaultReward (exampleChain []) 3002160 \<le> calculateDefaultReward (exampleChain []) 2161
   \<and> calculateDefaultReward (exampleChain []) 100 = 0
   \<and> calculateDefaultReward (exampleChain []) 3002159 = calculateDefaultReward (exampleChain []) 2160
   \<and> calculateDefaultReward (exampleChain []) 15002160 = 100000000"
proof -
  let ?c = "exampleChain []"
  have args: "blockRewardArgs ?c = devnetRewards"
    by (simp add: exampleChain_def)
  have desc: "sorted_wrt (\<lambda>a b. b \<le> a) (milestones (blockRewardArgs ?c))"
    by (simp add: args devnetRewards_def)
  have ne: "milestones (blockRewardArgs ?c) \<noteq> []"
    by (simp add: args devnetRewards_def)
  have dist: "0 < distance (blockRewardArgs ?c)"
    by (simp add: args devnetRewards_def)
  note s = calculateDefaultReward_schedule [OF desc ne dist]
  from s have m: "rewardOffset (blockRewardArgs ?c) \<le> 2161 \<and> (2161 :: int) \<le> 3002160 \<longrightarrow>
            calculateDefaultReward ?c 3002160 \<le> calculateDefaultReward ?c 2161"
    by blast
  from s have z: "100 < rewardOffset (blockRewardArgs ?c) \<longrightarrow> calculateDefaultReward ?c 100 = 0"
    by blast
  from s have k: "(0 :: int) \<le> 0
              \<and> rewardOffset (blockRewardArgs ?c) + 0 * distance (blockRewardArgs ?c) \<le> 3002159
              \<and> 3002159 < rewardOffset (blockRewardArgs ?c) + (0 + 1) * distance (blockRewardArgs ?c) \<longrightarrow>
            calculateDefaultReward ?c 3002159
              = calculateDefaultReward ?c
                  (rewardOffset (blockRewardArgs ?c) + 0 * distance (blockRewardArgs ?c))"
    by blast
  from s have e: "rewardOffset (blockRewardArgs ?c)
                 + int (length (milestones (blockRewardArgs ?c))) * distance (blockRewardArgs ?c) \<le> 15002160
              \<longrightarrow> calculateDefaultReward ?c 15002160 = last (milestones (blockRewardArgs ?c))"
    by blast
  from m z k e show ?thesis
    by (simp add: args devnetRewards_def)
qed

text \<open>
  Over all heights the reward is not non-increasing: it is 0 at height 100, below the
  offset, and 500000000 at height 2161.
\<close>

theorem calculateDefaultReward_schedule_counterexample:
  "(100 :: int) \<le> 2161
   \<and> calculateDefaultReward (exampleChain []) 100 = 0
   \<and> calculateDefaultReward (exampleChain []) 2161 = 500000000
   \<and> \<not> calculateDefaultReward (exampleChain []) 100 \<ge> calculateDefaultReward (exampleChain []) 2161"
  by (simp add: calculateDefaultReward_def block_reward_calculateDefaultReward_def example_defs)

section \<open>A new state store\<close>

lemma headers_between_bounds:
  "h \<in> set (getBlockHeadersByHeightBetween da lo hi) \<Longrightarrow> lo \<le> height h \<and> height h \<le> hi"
  by (auto simp: getBlockHeadersByHeightBetween_def)

lemma headers_between_complete:
  "b \<in> set (db_blocks da) \<Longrightarrow> lo \<le> height (header b) \<Longrightarrow> height (header b) \<le> hi
     \<Longrightarrow> header b \<in> set (getBlockHeadersByHeightBetween da lo hi)"
  by (auto simp: getBlockHeadersByHeightBetween_def)

lemma headers_between_newest_first:
  assumes "sorted_wrt (\<lambda>a b. height (header b) \<le> height (header a)) (db_blocks da)"
  shows "sorted_wrt (\<lambda>a b. height b \<le> height a) (getBlockHeadersByHeightBetween da lo hi)"
  using assms
  by (simp add: getBlockHeadersByHeightBetween_def sorted_wrt_map sorted_wrt_filter)

text \<open>
  The persisted blocks stay newest first: a block saved on top is at least as high as the
  blocks below it, and a removal only takes a block out.
\<close>

lemma saveBlock_keeps_newest_first:
  assumes "sorted_wrt (\<lambda>a b. height (header b) \<le> height (header a)) (db_blocks (dataAccess c))"
    and "\<forall>b \<in> set (db_blocks (dataAccess c)). height (header b) \<le> height (header B)"
  shows "sorted_wrt (\<lambda>a b. height (header b) \<le> height (header a))
           (db_blocks (dataAccess (saveBlock encodeHeight B s fh rm c)))"
  using assms
  by (simp add: saveBlock_def dataAccess_saveBlock_def addBlockHeader_def Let_def)

lemma removeBlock_keeps_newest_first:
  assumes "sorted_wrt (\<lambda>a b. height (header b) \<le> height (header a)) (db_blocks (dataAccess c))"
  shows "sorted_wrt (\<lambda>a b. height (header b) \<le> height (header a))
           (db_blocks (dataAccess (snd (removeBlock B s t c))))"
  using assms
  by (auto simp: removeBlock_def dataAccess_deleteBlock_def removeBlockHeader_def
      sorted_wrt_filter split: option.splits)

lemma newest_first_head_is_Max:
  assumes "sorted_wrt (\<lambda>a b. height b \<le> height a) (first # rest)"
  shows "Max (height ` set (first # rest)) = height first"
proof (rule Max_eqI)
  show "finite (height ` set (first # rest))" by simp
  show "height first \<in> height ` set (first # rest)" by simp
  fix y
  assume "y \<in> height ` set (first # rest)"
  with assms show "y \<le> height first" by auto
qed

text \<open>
  C7, as the code has it: the state store returned by \<^verbatim>\<open>newStateStore(skipLastHeights)\<close>
  is seeded with the headers the data access layer returns for the heights from
  \<^verbatim>\<open>max(0, tip.height - 3 * numberOfValidators - skipLastHeights)\<close> to
  \<^verbatim>\<open>max(tip.height - skipLastHeights, 1)\<close>: every seeded header has its height in that
  range and every persisted block of that range has its header seeded. The last block
  reward is \<^verbatim>\<open>calculateDefaultReward\<close> of the height of \<^verbatim>\<open>lastBlockHeaders[0]\<close>, and
  \<^verbatim>\<open>calculateDefaultReward(1)\<close> when the list is empty. The persisted blocks being kept
  newest first, \<^verbatim>\<open>lastBlockHeaders[0]\<close> is the latest header of the window: the reward is
  that of the greatest height seeded. Nothing is marked dirty.
\<close>

theorem newStateStore_window:
  "chain_lastBlockHeaders (newStateStore c skipLastHeights)
     = getBlockHeadersByHeightBetween (dataAccess c)
         (max 0 (height (header (lastBlock c)) - 3 * numberOfValidators c - skipLastHeights))
         (max (height (header (lastBlock c)) - skipLastHeights) 1)
   \<and> (\<forall>h \<in> set (chain_lastBlockHeaders (newStateStore c skipLastHeights)).
         max 0 (height (header (lastBlock c)) - 3 * numberOfValidators c - skipLastHeights)
           \<le> height h
         \<and> height h \<le> max (height (header (lastBlock c)) - skipLastHeights) 1)
   \<and> (\<forall>b \<in> set (db_blocks (dataAccess c)).
         max 0 (height (header (lastBlock c)) - 3 * numberOfValidators c - skipLastHeights)
           \<le> height (header b)
         \<and> height (header b) \<le> max (height (header (lastBlock c)) - skipLastHeights) 1
         \<longrightarrow> header b \<in> set (chain_lastBlockHeaders (newStateStore c skipLastHeights)))
   \<and> chain_lastBlockReward (newStateStore c skipLastHeights)
       = (case chain_lastBlockHeaders (newStateStore c skipLastHeights) of
            [] \<Rightarrow> calculateDefaultReward c 1
          | first # _ \<Rightarrow> calculateDefaultReward c (height first))
   \<and> (sorted_wrt (\<lambda>a b. height (header b) \<le> height (header a)) (db_blocks (dataAccess c))
        \<and> chain_lastBlockHeaders (newStateStore c skipLastHeights) \<noteq> [] \<longrightarrow>
        chain_lastBlockReward (newStateStore c skipLastHeights)
          = calculateDefaultReward c
              (Max (height ` set (chain_lastBlockHeaders (newStateStore c skipLastHeights)))))
   \<and> account_updatedKeys (newStateStore c skipLastHeights) = []
   \<and> consensus_updatedKeys (newStateStore c skipLastHeights) = []"
proof -
  let ?lo = "max 0 (height (header (lastBlock c)) - 3 * numberOfValidators c - skipLastHeights)"
  let ?hi = "max (height (header (lastBlock c)) - skipLastHeights) 1"
  let ?s = "newStateStore c skipLastHeights"
  have hs: "chain_lastBlockHeaders ?s = getBlockHeadersByHeightBetween (dataAccess c) ?lo ?hi"
    by (simp add: newStateStore_def Let_def mult.commute)
  have rw: "chain_lastBlockReward ?s
       = (case chain_lastBlockHeaders ?s of
            [] \<Rightarrow> calculateDefaultReward c 1
          | first # _ \<Rightarrow> calculateDefaultReward c (height first))"
    by (simp add: newStateStore_def Let_def split: list.splits)
  have clean: "account_updatedKeys ?s = []" "consensus_updatedKeys ?s = []"
    by (simp_all add: newStateStore_def Let_def)
  have bounds: "\<forall>h \<in> set (chain_lastBlockHeaders ?s). ?lo \<le> height h \<and> height h \<le> ?hi"
    unfolding hs using headers_between_bounds by blast
  have complete: "\<forall>b \<in> set (db_blocks (dataAccess c)).
         ?lo \<le> height (header b) \<and> height (header b) \<le> ?hi
         \<longrightarrow> header b \<in> set (chain_lastBlockHeaders ?s)"
    unfolding hs using headers_between_complete by blast
  have latest: "chain_lastBlockReward ?s
          = calculateDefaultReward c (Max (height ` set (chain_lastBlockHeaders ?s)))"
    if newest: "sorted_wrt (\<lambda>a b. height (header b) \<le> height (header a)) (db_blocks (dataAccess c))"
      and ne: "chain_lastBlockHeaders ?s \<noteq> []"
  proof -
    from ne obtain first rest where fr: "chain_lastBlockHeaders ?s = first # rest"
      by (cases "chain_lastBlockHeaders ?s") auto
    from newest have "sorted_wrt (\<lambda>a b. height b \<le> height a) (chain_lastBlockHeaders ?s)"
      unfolding hs by (rule headers_between_newest_first)
    then have "Max (height ` set (first # rest)) = height first"
      unfolding fr by (rule newest_first_head_is_Max)
    moreover from rw have "chain_lastBlockReward ?s = calculateDefaultReward c (height first)"
      by (simp add: fr)
    ultimately show ?thesis
      by (simp only: fr)
  qed
  from hs bounds complete rw latest clean show ?thesis
    by blast
qed

text \<open>
  A chain of the blocks 2161, 2160 and 2159, the last height skipped: the window holds the
  headers of heights 2160 and 2159 and the reward is that of height 2160, the first
  height that is rewarded.
\<close>

theorem newStateStore_window_witness:
  "chain_lastBlockHeaders (newStateStore
      (exampleChain [exampleBlock 2 2161, exampleBlock 2 2160, exampleBlock 2 2159]) 1)
     = [header (exampleBlock 2 2160), header (exampleBlock 2 2159)]
   \<and> chain_lastBlockReward (newStateStore
      (exampleChain [exampleBlock 2 2161, exampleBlock 2 2160, exampleBlock 2 2159]) 1)
     = 500000000"
proof -
  let ?c = "exampleChain [exampleBlock 2 2161, exampleBlock 2 2160, exampleBlock 2 2159]"
  have w: "getBlockHeadersByHeightBetween (dataAccess ?c)
         (max 0 (height (header (lastBlock ?c)) - 3 * numberOfValidators ?c - 1))
         (max (height (header (lastBlock ?c)) - 1) 1)
      = [header (exampleBlock 2 2160), header (exampleBlock 2 2159)]"
    by (simp add: getBlockHeadersByHeightBetween_def example_defs)
  have newest: "sorted_wrt (\<lambda>a b. height (header b) \<le> height (header a))
      (db_blocks (dataAccess ?c))"
    by (simp add: example_defs)
  have m: "Max (height ` set [header (exampleBlock 2 2160), header (exampleBlock 2 2159)]) = 2160"
    by (simp add: example_defs)
  have r: "calculateDefaultReward ?c 2160 = 500000000"
    by (simp add: calculateDefaultReward_def block_reward_calculateDefaultReward_def example_defs)
  note window = newStateStore_window [of ?c 1]
  from window [THEN conjunct1] w
  have hs: "chain_lastBlockHeaders (newStateStore ?c 1)
      = [header (exampleBlock 2 2160), header (exampleBlock 2 2159)]"
    by simp
  from window [THEN conjunct2, THEN conjunct2, THEN conjunct2, THEN conjunct2, THEN conjunct1]
    newest hs m
  have "chain_lastBlockReward (newStateStore ?c 1) = calculateDefaultReward ?c 2160"
    by simp
  with hs r show ?thesis
    by simp
qed

text \<open>
  The window does not end at \<^verbatim>\<open>tip.height - skipLastHeights\<close> when that is below 1: with
  the tip at height 2 and 5 heights skipped, the headers of heights 1 and 0 are seeded.
  An empty window gives the reward of height 1, which is 0 under the default schedule,
  not 1. And the reward is not that of the earliest header of the window: with the
  headers of heights 2160 and 2159 seeded, the earliest has the default reward 0 and the
  last block reward is 500000000.
\<close>

theorem newStateStore_window_counterexample:
  "height (header (lastBlock
       (exampleChain [exampleBlock 2 2, exampleBlock 2 1, asBlock exampleGenesisBlock]))) - 5 < 0
   \<and> chain_lastBlockHeaders (newStateStore
       (exampleChain [exampleBlock 2 2, exampleBlock 2 1, asBlock exampleGenesisBlock]) 5)
      = [header (exampleBlock 2 1), header (asBlock exampleGenesisBlock)]
   \<and> chain_lastBlockHeaders (newStateStore (exampleChain []) 0) = []
   \<and> chain_lastBlockReward (newStateStore (exampleChain []) 0) = 0
   \<and> chain_lastBlockHeaders (newStateStore
       (exampleChain [exampleBlock 2 2160, exampleBlock 2 2159]) 0)
      = [header (exampleBlock 2 2160), header (exampleBlock 2 2159)]
   \<and> calculateDefaultReward (exampleChain [exampleBlock 2 2160, exampleBlock 2 2159])
        (height (header (exampleBlock 2 2159))) = 0
   \<and> chain_lastBlockReward (newStateStore
       (exampleChain [exampleBlock 2 2160, exampleBlock 2 2159]) 0) = 500000000"
  by (simp add: newStateStore_def getBlockHeadersByHeightBetween_def calculateDefaultReward_def
      block_reward_calculateDefaultReward_def example_defs)

section \<open>Saving a block and removing it again\<close>











text \<open>
  A state store that reads a key before it first writes it keeps a diff that records the
  persisted values: \<^verbatim>\<open>set\<close> preserves that, for a key already in the diff and for a key
  whose overlay entry is the persisted one.
\<close>

lemma account_set_tracks:
  assumes tracked: "\<forall>e \<in> set (account_diff s). snd e = db (fst e)"
    and dirty: "set (account_updatedKeys s) \<subseteq> fst ` set (account_diff s)"
    and seen: "a \<in> fst ` set (account_diff s) \<or> account_data s a = db a"
  shows "(\<forall>e \<in> set (account_diff (account_set s a acc)). snd e = db (fst e))
     \<and> set (account_updatedKeys (account_set s a acc))
         \<subseteq> fst ` set (account_diff (account_set s a acc))"
  using assms by (auto simp: account_set_def)

lemma consensus_set_tracks:
  assumes tracked: "\<forall>e \<in> set (consensus_diff s). snd e = db (fst e)"
    and dirty: "set (consensus_updatedKeys s) \<subseteq> fst ` set (consensus_diff s)"
    and seen: "k \<in> fst ` set (consensus_diff s) \<or> consensus_data s k = db k"
  shows "(\<forall>e \<in> set (consensus_diff (consensus_set s k v)). snd e = db (fst e))
     \<and> set (consensus_updatedKeys (consensus_set s k v))
         \<subseteq> fst ` set (consensus_diff (consensus_set s k v))"
  using assms by (auto simp: consensus_set_def)



section \<open>Applying a proof of misbehavior\<close>

lemma account_set_lookup:
  "account_data (account_set s a acc) a = Some acc"
  by (simp add: account_set_def)

text \<open>
  C6: when a proof-of-misbehavior transaction applies, the reporting height + 1 is appended
  to the accused's strike list and the accused's banned flag is set if and only if the list
  thereby has 5 entries; the amount credited to the reporter is
  \<^verbatim>\<open>min(lastBlockReward, accusedBalance - minRemainingBalance)\<close> floored at 0, and 0 when
  the reporter's address is the accused's.
\<close>

theorem pom_apply_effect:
  assumes ok: "pom_apply utils da ctx s = Inr (calls, s')"
    and hs: "chain_lastBlockHeaders s = last' # rest"
    and accused: "accused = getAddressFromPublicKey utils (generatorPublicKey (header1 ctx))"
    and acc: "account_get da s accused = Some (delegate, s1)"
  shows "(\<exists>punished. account_data s' accused = Some punished
            \<and> pomHeights punished = pomHeights delegate @ [height last' + 1]
            \<and> (isBanned punished \<longleftrightarrow> length (pomHeights punished) = 5)
            \<and> username punished = username delegate
            \<and> address punished = address delegate)
     \<and> calls = [TokenCredit (senderAddress ctx)
                  (if senderAddress ctx = accused then 0
                   else max 0 (min (chain_lastBlockReward s)
                          (token_getBalance (reducerHandler ctx) accused
                             - token_getMinRemainingBalance (reducerHandler ctx)))),
                TokenDebit accused
                  (if senderAddress ctx = accused then 0
                   else max 0 (min (chain_lastBlockReward s)
                          (token_getBalance (reducerHandler ctx) accused
                             - token_getMinRemainingBalance (reducerHandler ctx))))]"
proof -
  let ?punished = "delegate\<lparr>pomHeights := pomHeights delegate @ [height last' + 1],
      isBanned := (length (pomHeights delegate @ [height last' + 1]) = MAX_POM_HEIGHTS)\<rparr>"
  from ok hs accused acc have res:
    "calls = [TokenCredit (senderAddress ctx) (pom_reward ctx s accused),
              TokenDebit accused (pom_reward ctx s accused)]"
    "s' = account_set s1 accused ?punished"
    by (simp_all add: pom_apply_def Let_def split: if_splits)
  have "account_data s' accused = Some ?punished"
    unfolding res(2) by (rule account_set_lookup)
  moreover have "pomHeights ?punished = pomHeights delegate @ [height last' + 1]"
    by simp
  moreover have "isBanned ?punished \<longleftrightarrow> length (pomHeights ?punished) = 5"
    by (simp add: MAX_POM_HEIGHTS_def)
  moreover have "username ?punished = username delegate" "address ?punished = address delegate"
    by simp_all
  ultimately have first: "\<exists>punished. account_data s' accused = Some punished
            \<and> pomHeights punished = pomHeights delegate @ [height last' + 1]
            \<and> (isBanned punished \<longleftrightarrow> length (pomHeights punished) = 5)
            \<and> username punished = username delegate
            \<and> address punished = address delegate"
    by blast
  from res(1) first show ?thesis
    by (simp add: pom_reward_def)
qed

text \<open>
  The fifth strike bans the delegate and the reporter \<open>[4]\<close> is credited the balance
  above the minimum; the delegate reporting itself is credited 0.
\<close>

theorem pom_apply_effect_witness:
  "\<exists>calls s' punished.
     pom_apply exampleUtils (exampleDataAccess []) (examplePomContext [4]) examplePomStore
       = Inr (calls, s')
     \<and> account_data s' [1] = Some punished
     \<and> pomHeights punished = [500, 1000, 2000, 4550, 8760001]
     \<and> isBanned punished
     \<and> calls = [TokenCredit [4] 6894999999, TokenDebit [1] 6894999999]
     \<and> fst (projr (pom_apply exampleUtils (exampleDataAccess []) (examplePomContext [1])
            examplePomStore)) = [TokenCredit [1] 0, TokenDebit [1] 0]"
proof -
  let ?delegate = "(exampleAccount [1])\<lparr>pomHeights := [500, 1000, 2000, 4550]\<rparr>"
  let ?punished = "?delegate\<lparr>pomHeights := [500, 1000, 2000, 4550, 8760001], isBanned := True\<rparr>"
  let ?calls = "[TokenCredit [4] 6894999999, TokenDebit [1] 6894999999]"
  have acc: "account_get (exampleDataAccess []) examplePomStore [1]
      = Some (?delegate, examplePomStore)"
    by (simp add: account_get_def examplePomStore_def)
  have hs: "chain_lastBlockHeaders examplePomStore = header (exampleBlock 2 8760000) # []"
    by (simp add: examplePomStore_def)
  have accused: "[1] = getAddressFromPublicKey exampleUtils
      (generatorPublicKey (header1 (examplePomContext [4])))"
    by (simp add: exampleUtils_def examplePomContext_def exampleBlock_def)
  have ok: "pom_apply exampleUtils (exampleDataAccess []) (examplePomContext [4]) examplePomStore
      = Inr (?calls, account_set examplePomStore [1] ?punished)"
    using acc
    by (simp add: pom_apply_def pom_reward_def Let_def MAX_PUNISHABLE_BLOCK_HEIGHT_DIFFERENCE_def
        MAX_POM_HEIGHTS_def exampleUtils_def examplePomContext_def examplePomStore_def
        exampleBlock_def exampleAccount_def)
  from pom_apply_effect [OF ok hs accused acc] obtain punished where
    p: "account_data (account_set examplePomStore [1] ?punished) [1] = Some punished"
      "pomHeights punished = pomHeights ?delegate @ [height (header (exampleBlock 2 8760000)) + 1]"
      "isBanned punished \<longleftrightarrow> length (pomHeights punished) = 5"
    by blast
  from p(2) have hs5: "pomHeights punished = [500, 1000, 2000, 4550, 8760001]"
    by (simp add: exampleBlock_def)
  with p(3) have "isBanned punished"
    by simp
  moreover have accused': "[1] = getAddressFromPublicKey exampleUtils
      (generatorPublicKey (header1 (examplePomContext [1])))"
    by (simp add: exampleUtils_def examplePomContext_def exampleBlock_def)
  have ok': "pom_apply exampleUtils (exampleDataAccess []) (examplePomContext [1]) examplePomStore
      = Inr (projr (pom_apply exampleUtils (exampleDataAccess []) (examplePomContext [1])
            examplePomStore))"
    using acc
    by (simp add: pom_apply_def Let_def MAX_PUNISHABLE_BLOCK_HEIGHT_DIFFERENCE_def
        exampleUtils_def examplePomContext_def examplePomStore_def
        exampleBlock_def exampleAccount_def)
  have same: "fst (projr (pom_apply exampleUtils (exampleDataAccess []) (examplePomContext [1])
            examplePomStore)) = [TokenCredit [1] 0, TokenDebit [1] 0]"
    using pom_apply_effect [OF _ hs accused' acc,
        of "fst (projr (pom_apply exampleUtils (exampleDataAccess []) (examplePomContext [1])
            examplePomStore))"
          "snd (projr (pom_apply exampleUtils (exampleDataAccess []) (examplePomContext [1])
            examplePomStore))"] ok'
    by (simp add: examplePomContext_def)
  ultimately show ?thesis
    using ok p(1) hs5 by blast
qed

end
